theory Spec2Isabelle
  imports Complex_Main
begin

section \<open>Enumerations and lookup tables\<close>

text \<open>
  The two analysis modules, \<^verbatim>\<open>ChessReview/main.py\<close> (games read from PGN) and
  \<^verbatim>\<open>ChessReview2/main.py\<close> (games read from a JSON move list), declare the same
  enumerations, tables, constants and helper functions, word for word. They are embedded
  once. Python's \<^verbatim>\<open>float\<close> values are embedded as exact rationals: a decimal
  literal stands for its decimal value and the arithmetic does not round.
\<close>

datatype GamePhase = OPENING | MIDDLEGAME | ENDGAME

datatype Classification =
  BRILLIANT | GREAT | BEST | EXCELLENT | GOOD | INACCURACY | MISTAKE | MISS | BLUNDER
  | BOOK | FORCED

text \<open>The member's \<^verbatim>\<open>.value\<close>, the string written into a move record.\<close>

fun classification_value :: "Classification \<Rightarrow> string" where
  "classification_value BRILLIANT = ''brilliant''"
| "classification_value GREAT = ''great''"
| "classification_value BEST = ''best''"
| "classification_value EXCELLENT = ''excellent''"
| "classification_value GOOD = ''good''"
| "classification_value INACCURACY = ''inaccuracy''"
| "classification_value MISTAKE = ''mistake''"
| "classification_value MISS = ''miss''"
| "classification_value BLUNDER = ''blunder''"
| "classification_value BOOK = ''book''"
| "classification_value FORCED = ''forced''"


definition centipawn_classifications :: "Classification list" where
  "centipawn_classifications = [BEST, EXCELLENT, GOOD, INACCURACY, MISS, MISTAKE, BLUNDER]"

definition FORCED_WIN_THRESHOLD :: int where
  "FORCED_WIN_THRESHOLD = 500"

definition MISS_CENTIPAWN_LOSS :: int where
  "MISS_CENTIPAWN_LOSS = 300"

definition MISS_MATE_THRESHOLD :: int where
  "MISS_MATE_THRESHOLD = 3"

definition ENDGAME_MATERIAL_THRESHOLD :: int where
  "ENDGAME_MATERIAL_THRESHOLD = 24"

definition QUEEN_VALUE :: int where
  "QUEEN_VALUE = 9"

section \<open>The board and the engine, as the analysis reads them\<close>

text \<open>
  The chess rules and the engine belong to the python-chess library and to the UCI engine
  behind it. The analysis reads a board through four accessors only; a board is the record
  of what they return. \<^verbatim>\<open>board.pieces(piece_type, color)\<close> is a set of squares, of
  which the code takes the size: the squares are listed here.
\<close>

datatype Color = WHITE | BLACK

datatype PieceType = PAWN | KNIGHT | BISHOP | ROOK | QUEEN | KING

definition PIECE_TYPES :: "PieceType list" where
  "PIECE_TYPES = [PAWN, KNIGHT, BISHOP, ROOK, QUEEN, KING]"

record Board =
  pieces :: "PieceType \<Rightarrow> Color \<Rightarrow> nat list"
  turn :: Color
  fullmove_number :: int
  fen :: string

text \<open>
  A \<^verbatim>\<open>chess.Move\<close> is compared by its squares, promotion and drop, which its UCI
  string spells out; the null move, written 0000, is the only move that is false in a
  condition.
\<close>

datatype Move = Move (uci: string)

definition move_bool :: "Move \<Rightarrow> bool" where
  "move_bool m = (uci m \<noteq> ''0000'')"

text \<open>
  An engine score, relative to the side to move: centipawns, or a mate distance in moves
  (positive when the side to move mates, negative when it is mated). The three methods
  are python-chess's \<^verbatim>\<open>Score.mate()\<close>, \<^verbatim>\<open>Score.score(mate_score=...)\<close> and
  negation.
\<close>

datatype Score = Cp int | Mate int | MateGiven

fun score_mate :: "Score \<Rightarrow> int option" where
  "score_mate (Cp c) = None"
| "score_mate (Mate n) = Some n"
| "score_mate MateGiven = Some 0"

fun score_score :: "Score \<Rightarrow> int \<Rightarrow> int" where
  "score_score (Cp c) mate_score = c"
| "score_score (Mate n) mate_score = (if n > 0 then mate_score - n else - mate_score - n)"
| "score_score MateGiven mate_score = mate_score"

fun score_neg :: "Score \<Rightarrow> Score" where
  "score_neg (Cp c) = Cp (- c)"
| "score_neg (Mate n) = (if n = 0 then MateGiven else Mate (- n))"
| "score_neg MateGiven = Mate 0"

datatype PovScore = PovScore (relative: Score) (pov_turn: Color)

definition white :: "PovScore \<Rightarrow> Score" where
  "white sc = (if pov_turn sc = WHITE then relative sc else score_neg (relative sc))"

definition is_mate :: "PovScore \<Rightarrow> bool" where
  "is_mate sc = (score_mate (relative sc) \<noteq> None)"

text \<open>
  The dictionary \<^verbatim>\<open>engine.analyse\<close> returns; both keys may be absent.
\<close>

record InfoDict =
  info_score :: "PovScore option"
  info_pv :: "Move list option"

datatype py_error = KeyError | IndexError

section \<open>Phase detection\<close>

text \<open>
  The value table of \<^verbatim>\<open>detect_game_phase\<close> has no entry for the king; the loop skips
  the king before it reads the table.
\<close>

fun piece_value :: "PieceType \<Rightarrow> int option" where
  "piece_value PAWN = Some 1"
| "piece_value KNIGHT = Some 3"
| "piece_value BISHOP = Some 3"
| "piece_value ROOK = Some 5"
| "piece_value QUEEN = Some QUEEN_VALUE"
| "piece_value KING = None"

text \<open>
  One pass of the inner loop: \<open>acc\<close> is \<open>(total_material, queens)\<close>. The lookup of a
  piece type that the table lacks would raise; it is \<open>None\<close> here.
\<close>

definition material_body :: "Board \<Rightarrow> Color \<Rightarrow> (int \<times> int) option \<Rightarrow> PieceType \<Rightarrow> (int \<times> int) option" where
  "material_body b color acc piece_type =
     (case acc of
        None \<Rightarrow> None
      | Some (total_material, queens) \<Rightarrow>
          if piece_type = KING then Some (total_material, queens)
          else
            (case piece_value piece_type of
               None \<Rightarrow> None
             | Some v \<Rightarrow>
                 let count = int (length (pieces b piece_type color))
                 in Some (total_material + count * v,
                          if piece_type = QUEEN then queens + count else queens)))"

definition material_loop :: "Board \<Rightarrow> (int \<times> int) option" where
  "material_loop b =
     foldl (\<lambda>acc color. foldl (material_body b color) acc PIECE_TYPES) (Some (0, 0)) [WHITE, BLACK]"

definition detect_game_phase :: "Board \<Rightarrow> bool \<Rightarrow> GamePhase option" where
  "detect_game_phase b in_opening =
     (if in_opening then Some OPENING
      else
        (case material_loop b of
           None \<Rightarrow> None
         | Some (total_material, queens) \<Rightarrow>
             let endgame_conditions =
                   [total_material \<le> ENDGAME_MATERIAL_THRESHOLD,
                    queens = 0 \<and> total_material \<le> ENDGAME_MATERIAL_THRESHOLD * 2]
             in Some (if list_ex (\<lambda>c. c) endgame_conditions then ENDGAME else MIDDLEGAME)))"

section \<open>Thresholds\<close>

datatype threshold = Finite rat | PosInf

definition get_evaluation_loss_threshold :: "Classification \<Rightarrow> rat \<Rightarrow> threshold" where
  "get_evaluation_loss_threshold classif prev_eval0 =
     (let prev_eval = \<bar>prev_eval0\<bar> in
      if classif = BEST then
        Finite (max (0.0001 * prev_eval\<^sup>2 + 0.0236 * prev_eval - 3.7143) 0)
      else if classif = EXCELLENT then
        Finite (max (0.0002 * prev_eval\<^sup>2 + 0.1231 * prev_eval + 27.5455) 0)
      else if classif = GOOD then
        Finite (max (0.0002 * prev_eval\<^sup>2 + 0.2643 * prev_eval + 60.5455) 0)
      else if classif = INACCURACY then
        Finite (max (0.0002 * prev_eval\<^sup>2 + 0.3624 * prev_eval + 108.0909) 0)
      else if classif = MISS then
        Finite (max (0.00025 * prev_eval\<^sup>2 + 0.38255 * prev_eval + 166.9541) 0)
      else if classif = MISTAKE then
        Finite (max (0.0003 * prev_eval\<^sup>2 + 0.4027 * prev_eval + 225.8182) 0)
      else PosInf)"

text \<open>\<^verbatim>\<open>eval_loss <= threshold\<close>, an integer against a float.\<close>

fun le_threshold :: "int \<Rightarrow> threshold \<Rightarrow> bool" where
  "le_threshold eval_loss (Finite t) = (of_int eval_loss \<le> t)"
| "le_threshold eval_loss PosInf = True"

section \<open>Opening book lookup\<close>

text \<open>
  \<^verbatim>\<open>str.split()\<close> with no argument cuts at runs of white space and yields no empty
  word; \<^verbatim>\<open>" ".join\<close> puts one blank between the words.
\<close>

definition is_space :: "char \<Rightarrow> bool" where
  "is_space c =
     (c \<in> set [CHR 0x09, CHR 0x0A, CHR 0x0B, CHR 0x0C, CHR 0x0D,
                CHR 0x1C, CHR 0x1D, CHR 0x1E, CHR 0x1F, CHR 0x20])"

fun split_from :: "string \<Rightarrow> string \<Rightarrow> string list" where
  "split_from cur [] = (if cur = [] then [] else [cur])"
| "split_from cur (c # cs) =
     (if is_space c then (if cur = [] then split_from [] cs else cur # split_from [] cs)
      else split_from (cur @ [c]) cs)"

definition str_split :: "string \<Rightarrow> string list" where
  "str_split s = split_from [] s"

fun str_join :: "string \<Rightarrow> string list \<Rightarrow> string" where
  "str_join sep [] = []"
| "str_join sep [w] = w"
| "str_join sep (w # v # ws) = w @ sep @ str_join sep (v # ws)"

definition is_book_move :: "Board \<Rightarrow> (string \<rightharpoonup> string) \<Rightarrow> int \<Rightarrow> string option" where
  "is_book_move b opening_book max_depth =
     (if fullmove_number b > max_depth then None
      else opening_book (str_join '' '' (take 4 (str_split (fen b)))))"

text \<open>The truth value of \<^verbatim>\<open>book_move\<close>, a string or \<^verbatim>\<open>None\<close>, in a condition.\<close>

fun str_bool :: "string option \<Rightarrow> bool" where
  "str_bool None = False"
| "str_bool (Some s) = (s \<noteq> [])"

section \<open>Classification of one move\<close>

text \<open>
  \<^verbatim>\<open>info["score"].white().score(mate_score=10000) or 0\<close>: with a mate score given the
  method returns an integer, and \<^verbatim>\<open>or 0\<close> replaces a zero by zero.
\<close>

definition white_eval :: "PovScore \<Rightarrow> int" where
  "white_eval sc = (let v = score_score (white sc) 10000 in if v = 0 then 0 else v)"

text \<open>The loop over \<^verbatim>\<open>centipawn_classifications\<close>, left at the first fit.\<close>

fun centipawn_loop :: "Classification list \<Rightarrow> int \<Rightarrow> int \<Rightarrow> Classification option" where
  "centipawn_loop [] pre_eval eval_loss = None"
| "centipawn_loop (classif # rest) pre_eval eval_loss =
     (if le_threshold eval_loss (get_evaluation_loss_threshold classif (of_int pre_eval))
      then Some classif
      else centipawn_loop rest pre_eval eval_loss)"

text \<open>
  The initial classification. The PGN module ends it with
  \<^verbatim>\<open>classification or Classification.BLUNDER\<close>, the JSON module with a test for
  \<^verbatim>\<open>None\<close>; every member of the enumeration is true in a condition, so both are the
  same case distinction.
\<close>

definition initial_classification :: "string option \<Rightarrow> int \<Rightarrow> int \<Rightarrow> Classification" where
  "initial_classification book_move pre_eval eval_loss =
     (case (if str_bool book_move then Some BOOK else None) of
        Some c \<Rightarrow> c
      | None \<Rightarrow>
          (case centipawn_loop centipawn_classifications pre_eval eval_loss of
             Some c \<Rightarrow> c
           | None \<Rightarrow> BLUNDER))"

text \<open>
  \<^verbatim>\<open>is_mate() and relative.mate() <= MISS_MATE_THRESHOLD\<close>: the right operand is read
  only for a mate score, whose distance is a number.
\<close>

definition is_forced_win :: "PovScore \<Rightarrow> bool" where
  "is_forced_win sc =
     (is_mate sc \<and>
      (case score_mate (relative sc) of None \<Rightarrow> False | Some n \<Rightarrow> n \<le> MISS_MATE_THRESHOLD))"

text \<open>The PGN module compares the played move with the engine's first move as moves.\<close>

definition pgn_missed :: "Classification \<Rightarrow> PovScore \<Rightarrow> int \<Rightarrow> int \<Rightarrow> Move \<Rightarrow> Move option \<Rightarrow> Classification" where
  "pgn_missed classification pre_score pre_eval eval_loss mv best_move =
     (let is_winning = (\<bar>pre_eval\<bar> \<ge> FORCED_WIN_THRESHOLD)
      in if is_winning \<and> Some mv \<noteq> best_move \<and>
            (eval_loss \<ge> MISS_CENTIPAWN_LOSS \<or> is_forced_win pre_score)
         then MISS else classification)"

text \<open>
  The JSON module compares the token of the game file with
  \<^verbatim>\<open>best_move.uci() if best_move else None\<close>.
\<close>

definition best_move_uci :: "Move option \<Rightarrow> string option" where
  "best_move_uci best_move =
     (case best_move of
        None \<Rightarrow> None
      | Some m \<Rightarrow> if move_bool m then Some (uci m) else None)"

definition json_missed :: "Classification \<Rightarrow> PovScore \<Rightarrow> int \<Rightarrow> int \<Rightarrow> string \<Rightarrow> Move option \<Rightarrow> Classification" where
  "json_missed classification pre_score pre_eval eval_loss token best_move =
     (let is_winning = (\<bar>pre_eval\<bar> \<ge> FORCED_WIN_THRESHOLD)
      in if is_winning \<and> Some token \<noteq> best_move_uci best_move \<and>
            (eval_loss \<ge> MISS_CENTIPAWN_LOSS \<or> is_forced_win pre_score)
         then MISS else classification)"

definition brilliant_moves :: "Classification \<Rightarrow> int \<Rightarrow> int \<Rightarrow> Classification" where
  "brilliant_moves classification pre_eval post_eval =
     (if classification = BEST then
        (if pre_eval < - 150 \<and> post_eval \<ge> 150 then GREAT
         else if pre_eval < - 300 \<and> post_eval \<ge> 300 then BRILLIANT
         else classification)
      else classification)"

text \<open>
  The three stages in the order of the loop body, from the scores before and after the
  move.
\<close>

definition pgn_classify :: "string option \<Rightarrow> PovScore \<Rightarrow> Move option \<Rightarrow> Move \<Rightarrow> PovScore \<Rightarrow> Classification" where
  "pgn_classify book_move pre_score best_move mv post_score =
     (let pre_eval = white_eval pre_score;
          post_eval = white_eval post_score;
          eval_loss = \<bar>pre_eval - post_eval\<bar>;
          c1 = initial_classification book_move pre_eval eval_loss;
          c2 = pgn_missed c1 pre_score pre_eval eval_loss mv best_move
      in brilliant_moves c2 pre_eval post_eval)"

definition json_classify :: "string option \<Rightarrow> PovScore \<Rightarrow> Move option \<Rightarrow> string \<Rightarrow> PovScore \<Rightarrow> Classification" where
  "json_classify book_move pre_score best_move token post_score =
     (let pre_eval = white_eval pre_score;
          post_eval = white_eval post_score;
          eval_loss = \<bar>pre_eval - post_eval\<bar>;
          c1 = initial_classification book_move pre_eval eval_loss;
          c2 = json_missed c1 pre_score pre_eval eval_loss token best_move
      in brilliant_moves c2 pre_eval post_eval)"

section \<open>The analysis loops\<close>

text \<open>
  What the loops take from outside: the engine's answer for a position, python-chess's
  \<^verbatim>\<open>board.push\<close> and \<^verbatim>\<open>board.push_san\<close> (which raises \<^verbatim>\<open>ValueError\<close> with a
  message and leaves the board as it was, or plays the move), and the opening book.
\<close>

record env =
  analyse :: "Board \<Rightarrow> InfoDict"
  push :: "Board \<Rightarrow> Move \<Rightarrow> Board"
  push_san :: "Board \<Rightarrow> string \<Rightarrow> string + Board"
  opening_book :: "string \<rightharpoonup> string"

text \<open>
  An entry of \<^verbatim>\<open>result["move_analysis"]\<close>. \<open>MoveRecord\<close> holds the keys
  \<^verbatim>\<open>move_number\<close>, \<^verbatim>\<open>player\<close>, \<^verbatim>\<open>move\<close>, \<^verbatim>\<open>evaluation\<close>,
  \<^verbatim>\<open>evaluation_loss\<close> and \<^verbatim>\<open>classification\<close>; \<open>ErrorRecord\<close> holds
  \<^verbatim>\<open>move_number\<close>, \<^verbatim>\<open>player\<close>, \<^verbatim>\<open>move\<close> and \<^verbatim>\<open>error\<close>.
\<close>

datatype MoveRecord =
  MoveRecord int string string rat rat string
| ErrorRecord int string string string

text \<open>
  The variables a loop updates. \<open>st_classifications\<close> is keyed by \<^verbatim>\<open>"white"\<close> and
  \<^verbatim>\<open>"black"\<close>, then by phase. The PGN loop takes \<open>st_move_number\<close> from
  \<^verbatim>\<open>enumerate(..., start=1)\<close>; the JSON loop counts it itself.
\<close>

record analysis_state =
  st_board :: Board
  st_in_opening :: bool
  st_move_number :: int
  st_classifications :: "string \<Rightarrow> GamePhase \<Rightarrow> Classification list"
  st_phase_data :: "GamePhase \<Rightarrow> Classification list"
  st_move_analysis :: "MoveRecord list"

definition initial_state :: "Board \<Rightarrow> analysis_state" where
  "initial_state b =
     \<lparr>st_board = b, st_in_opening = True, st_move_number = 1,
      st_classifications = (\<lambda>player phase. []), st_phase_data = (\<lambda>phase. []),
      st_move_analysis = []\<rparr>"

text \<open>
  The analysis before the move: \<^verbatim>\<open>pre_info["score"]\<close> raises when the engine sent no
  score, \<^verbatim>\<open>pre_info.get("pv", [None])[0]\<close> when it sent an empty line.
\<close>

definition read_pre_info :: "InfoDict \<Rightarrow> py_error + (PovScore \<times> Move option)" where
  "read_pre_info pre_info =
     (case info_score pre_info of
        None \<Rightarrow> Inl KeyError
      | Some pre_score \<Rightarrow>
          (case info_pv pre_info of
             None \<Rightarrow> Inr (pre_score, None)
           | Some [] \<Rightarrow> Inl IndexError
           | Some (m # ms) \<Rightarrow> Inr (pre_score, Some m)))"

text \<open>
  Tracking: the classification is appended under the player and the phase, and under the
  phase.
\<close>

definition track :: "analysis_state \<Rightarrow> string \<Rightarrow> GamePhase \<Rightarrow> Classification \<Rightarrow> analysis_state" where
  "track s player_key current_phase c =
     s\<lparr>st_classifications :=
          (st_classifications s)
            (player_key := (st_classifications s player_key)
               (current_phase := st_classifications s player_key current_phase @ [c])),
        st_phase_data :=
          (st_phase_data s)(current_phase := st_phase_data s current_phase @ [c])\<rparr>"

text \<open>
  One pass of the PGN loop, for the move of one node of the main line. It returns the
  phase assigned to the move beside the new state.
\<close>

definition pgn_iteration :: "env \<Rightarrow> analysis_state \<Rightarrow> Move \<Rightarrow> py_error + (GamePhase \<times> analysis_state)" where
  "pgn_iteration e s mv =
     (case read_pre_info (analyse e (st_board s)) of
        Inl err \<Rightarrow> Inl err
      | Inr (pre_score, best_move) \<Rightarrow>
          let b = push e (st_board s) mv in
          (case info_score (analyse e b) of
             None \<Rightarrow> Inl KeyError
           | Some post_score \<Rightarrow>
               let book_move = is_book_move b (opening_book e) 8 in
               (case detect_game_phase b (st_in_opening s) of
                  None \<Rightarrow> Inl KeyError
                | Some current_phase \<Rightarrow>
                    let in_opening = (if \<not> str_bool book_move \<and> st_in_opening s then False
                                      else st_in_opening s);
                        c = pgn_classify book_move pre_score best_move mv post_score;
                        player_key = (if turn b = BLACK then ''white'' else ''black'');
                        s1 = track s player_key current_phase c;
                        r = MoveRecord (st_move_number s)
                              (if turn b = BLACK then ''White'' else ''Black'')
                              (uci mv)
                              (of_int (white_eval post_score) / 100)
                              (of_int \<bar>white_eval pre_score - white_eval post_score\<bar> / 100)
                              (classification_value c)
                    in Inr (current_phase,
                            s1\<lparr>st_board := b, st_in_opening := in_opening,
                               st_move_number := st_move_number s + 1,
                               st_move_analysis := st_move_analysis s @ [r]\<rparr>))))"

text \<open>
  One pass of the JSON loop, for one token. A token that \<^verbatim>\<open>push_san\<close> refuses is
  given no phase.
\<close>

definition json_iteration :: "env \<Rightarrow> analysis_state \<Rightarrow> string \<Rightarrow> py_error + (GamePhase option \<times> analysis_state)" where
  "json_iteration e s token =
     (case read_pre_info (analyse e (st_board s)) of
        Inl err \<Rightarrow> Inl err
      | Inr (pre_score, best_move) \<Rightarrow>
          (case push_san e (st_board s) token of
             Inl msg \<Rightarrow>
               Inr (None,
                    s\<lparr>st_move_analysis := st_move_analysis s @
                        [ErrorRecord (st_move_number s) ''unknown'' token
                           (''Invalid move: '' @ msg)]\<rparr>)
           | Inr b \<Rightarrow>
               (case info_score (analyse e b) of
                  None \<Rightarrow> Inl KeyError
                | Some post_score \<Rightarrow>
                    let book_move = is_book_move b (opening_book e) 8 in
                    (case detect_game_phase b (st_in_opening s) of
                       None \<Rightarrow> Inl KeyError
                     | Some current_phase \<Rightarrow>
                         let in_opening = (if \<not> str_bool book_move \<and> st_in_opening s then False
                                           else st_in_opening s);
                             c = json_classify book_move pre_score best_move token post_score;
                             player_key = (if turn b = BLACK then ''white'' else ''black'');
                             s1 = track s player_key current_phase c;
                             r = MoveRecord (st_move_number s)
                                   (if player_key = ''white'' then ''White'' else ''Black'')
                                   token
                                   (of_int (white_eval post_score) / 100)
                                   (of_int \<bar>white_eval pre_score - white_eval post_score\<bar> / 100)
                                   (classification_value c)
                         in Inr (Some current_phase,
                                 s1\<lparr>st_board := b, st_in_opening := in_opening,
                                    st_move_number := st_move_number s + 1,
                                    st_move_analysis := st_move_analysis s @ [r]\<rparr>)))))"

text \<open>The loops: an exception ends the analysis, every other pass goes on to the next move.\<close>

fun pgn_loop :: "env \<Rightarrow> analysis_state \<Rightarrow> Move list \<Rightarrow> py_error + analysis_state" where
  "pgn_loop e s [] = Inr s"
| "pgn_loop e s (mv # mvs) =
     (case pgn_iteration e s mv of
        Inl err \<Rightarrow> Inl err
      | Inr (ph, s') \<Rightarrow> pgn_loop e s' mvs)"

fun json_loop :: "env \<Rightarrow> analysis_state \<Rightarrow> string list \<Rightarrow> py_error + analysis_state" where
  "json_loop e s [] = Inr s"
| "json_loop e s (token # tokens) =
     (case json_iteration e s token of
        Inl err \<Rightarrow> Inl err
      | Inr (ph, s') \<Rightarrow> json_loop e s' tokens)"

text \<open>
  The phases the passes assign, in the order of the moves, as far as the loop runs.
\<close>

fun pgn_phases :: "env \<Rightarrow> analysis_state \<Rightarrow> Move list \<Rightarrow> GamePhase list" where
  "pgn_phases e s [] = []"
| "pgn_phases e s (mv # mvs) =
     (case pgn_iteration e s mv of
        Inl err \<Rightarrow> []
      | Inr (ph, s') \<Rightarrow> ph # pgn_phases e s' mvs)"

fun json_phases :: "env \<Rightarrow> analysis_state \<Rightarrow> string list \<Rightarrow> GamePhase list" where
  "json_phases e s [] = []"
| "json_phases e s (token # tokens) =
     (case json_iteration e s token of
        Inl err \<Rightarrow> []
      | Inr (None, s') \<Rightarrow> json_phases e s' tokens
      | Inr (Some ph, s') \<Rightarrow> ph # json_phases e s' tokens)"

text \<open>
  The tokens of one line of the \<^verbatim>\<open>"Moves"\<close> list: its words but the move numbers,
  which end with a full stop. The JSON module loops over the lines and, inside, over the
  tokens of a line, which visits the tokens of all lines in order.
\<close>

definition endswith_dot :: "string \<Rightarrow> bool" where
  "endswith_dot t = (t \<noteq> [] \<and> last t = CHR ''.'')"

definition move_tokens :: "string \<Rightarrow> string list" where
  "move_tokens move_line = filter (\<lambda>t. \<not> endswith_dot t) (str_split move_line)"

definition analyze_pgn_with_stockfish :: "env \<Rightarrow> Board \<Rightarrow> Move list \<Rightarrow> py_error + analysis_state" where
  "analyze_pgn_with_stockfish e game_board mainline = pgn_loop e (initial_state game_board) mainline"

definition analyze_json_game_with_stockfish :: "env \<Rightarrow> Board \<Rightarrow> string list \<Rightarrow> py_error + analysis_state" where
  "analyze_json_game_with_stockfish e start_board moves =
     json_loop e (initial_state start_board) (concat (map move_tokens moves))"

section \<open>Phase rating\<close>




section \<open>The specification's wording\<close>

text \<open>
  The threshold model as the specification words it: six candidates in a fixed order,
  each with coefficients \<open>(a, b, c)\<close>, and the tolerated loss
  \<open>max (a * x\<^sup>2 + b * x + c) 0\<close> at \<open>x = \<bar>preEval\<bar>\<close>.
\<close>

definition candidates :: "Classification list" where
  "candidates = [BEST, EXCELLENT, GOOD, INACCURACY, MISS, MISTAKE]"

fun coefficients :: "Classification \<Rightarrow> rat \<times> rat \<times> rat" where
  "coefficients BEST = (0.0001, 0.0236, - 3.7143)"
| "coefficients EXCELLENT = (0.0002, 0.1231, 27.5455)"
| "coefficients GOOD = (0.0002, 0.2643, 60.5455)"
| "coefficients INACCURACY = (0.0002, 0.3624, 108.0909)"
| "coefficients MISS = (0.00025, 0.38255, 166.9541)"
| "coefficients MISTAKE = (0.0003, 0.4027, 225.8182)"
| "coefficients c = (0, 0, 0)"

definition maxLoss :: "Classification \<Rightarrow> rat \<Rightarrow> rat" where
  "maxLoss c preEval =
     (case coefficients c of (a, b, c0) \<Rightarrow> max (a * \<bar>preEval\<bar>\<^sup>2 + b * \<bar>preEval\<bar> + c0) 0)"

text \<open>
  Stage 2 in the specification's words: the first candidate whose tolerated loss is at
  least the evaluation loss, and a blunder when there is none.
\<close>

definition centipawn_stage :: "int \<Rightarrow> int \<Rightarrow> Classification" where
  "centipawn_stage preEval evaluationLoss =
     (case find (\<lambda>c. of_int evaluationLoss \<le> maxLoss c (of_int preEval)) candidates of
        Some c \<Rightarrow> c
      | None \<Rightarrow> BLUNDER)"

text \<open>The order on thresholds, with \<open>PosInf\<close> above every number.\<close>

fun threshold_le :: "threshold \<Rightarrow> threshold \<Rightarrow> bool" where
  "threshold_le (Finite s) (Finite t) = (s \<le> t)"
| "threshold_le t PosInf = True"
| "threshold_le PosInf (Finite t) = False"

text \<open>
  The material count in the specification's words: the pieces of both colours but the
  kings, a pawn counting 1, a knight 3, a bishop 3, a rook 5 and a queen 9.
\<close>

definition piece_count :: "Board \<Rightarrow> PieceType \<Rightarrow> Color \<Rightarrow> int" where
  "piece_count b piece_type color = int (length (pieces b piece_type color))"

definition material_of :: "Board \<Rightarrow> Color \<Rightarrow> int" where
  "material_of b color =
     1 * piece_count b PAWN color + 3 * piece_count b KNIGHT color
     + 3 * piece_count b BISHOP color + 5 * piece_count b ROOK color
     + 9 * piece_count b QUEEN color"

definition total_material :: "Board \<Rightarrow> int" where
  "total_material b = material_of b WHITE + material_of b BLACK"

definition queen_count :: "Board \<Rightarrow> int" where
  "queen_count b = piece_count b QUEEN WHITE + piece_count b QUEEN BLACK"

section \<open>A sample game\<close>

text \<open>
  The game 1. f3 e5 2. g4 Qh4 mate, with the answers an engine gives along it, and a book
  that holds the position after 1. f3. Squares are numbered from a1 = 0 to h8 = 63.
\<close>

fun squares0 :: "PieceType \<Rightarrow> Color \<Rightarrow> nat list" where
  "squares0 PAWN WHITE = [8, 9, 10, 11, 12, 13, 14, 15]"
| "squares0 KNIGHT WHITE = [1, 6]"
| "squares0 BISHOP WHITE = [2, 5]"
| "squares0 ROOK WHITE = [0, 7]"
| "squares0 QUEEN WHITE = [3]"
| "squares0 KING WHITE = [4]"
| "squares0 PAWN BLACK = [48, 49, 50, 51, 52, 53, 54, 55]"
| "squares0 KNIGHT BLACK = [57, 62]"
| "squares0 BISHOP BLACK = [58, 61]"
| "squares0 ROOK BLACK = [56, 63]"
| "squares0 QUEEN BLACK = [59]"
| "squares0 KING BLACK = [60]"

definition squares1 :: "PieceType \<Rightarrow> Color \<Rightarrow> nat list" where
  "squares1 = squares0 (PAWN := (squares0 PAWN) (WHITE := [8, 9, 10, 11, 12, 14, 15, 21]))"

definition squares2 :: "PieceType \<Rightarrow> Color \<Rightarrow> nat list" where
  "squares2 = squares1 (PAWN := (squares1 PAWN) (BLACK := [36, 48, 49, 50, 51, 53, 54, 55]))"

definition squares3 :: "PieceType \<Rightarrow> Color \<Rightarrow> nat list" where
  "squares3 = squares2 (PAWN := (squares2 PAWN) (WHITE := [8, 9, 10, 11, 12, 15, 21, 30]))"

definition squares4 :: "PieceType \<Rightarrow> Color \<Rightarrow> nat list" where
  "squares4 = squares3 (QUEEN := (squares3 QUEEN) (BLACK := [31]))"

definition board0 :: Board where
  "board0 = \<lparr>pieces = squares0, turn = WHITE, fullmove_number = 1,
     fen = ''rnbqkbnr/pppppppp/8/8/8/8/PPPPPPPP/RNBQKBNR w KQkq - 0 1''\<rparr>"

definition board1 :: Board where
  "board1 = \<lparr>pieces = squares1, turn = BLACK, fullmove_number = 1,
     fen = ''rnbqkbnr/pppppppp/8/8/8/5P2/PPPPP1PP/RNBQKBNR b KQkq - 0 1''\<rparr>"

definition board2 :: Board where
  "board2 = \<lparr>pieces = squares2, turn = WHITE, fullmove_number = 2,
     fen = ''rnbqkbnr/pppp1ppp/8/4p3/8/5P2/PPPPP1PP/RNBQKBNR w KQkq - 0 2''\<rparr>"

definition board3 :: Board where
  "board3 = \<lparr>pieces = squares3, turn = BLACK, fullmove_number = 2,
     fen = ''rnbqkbnr/pppp1ppp/8/4p3/6P1/5P2/PPPPP2P/RNBQKBNR b KQkq - 0 2''\<rparr>"

definition board4 :: Board where
  "board4 = \<lparr>pieces = squares4, turn = WHITE, fullmove_number = 3,
     fen = ''rnb1kbnr/pppp1ppp/8/4p3/6Pq/5P2/PPPPP2P/RNBQKBNR w KQkq - 1 3''\<rparr>"

text \<open>The position a board stands for, by its full-move number and the side to move.\<close>

definition ply :: "Board \<Rightarrow> int" where
  "ply b = 2 * (fullmove_number b - 1) + (if turn b = WHITE then 0 else 1)"

definition sample_analyse :: "Board \<Rightarrow> InfoDict" where
  "sample_analyse b =
     (if ply b = 0 then \<lparr>info_score = Some (PovScore (Cp 35) WHITE), info_pv = Some [Move ''e2e4'']\<rparr>
      else if ply b = 1 then \<lparr>info_score = Some (PovScore (Cp 40) BLACK), info_pv = Some [Move ''e7e5'']\<rparr>
      else if ply b = 2 then \<lparr>info_score = Some (PovScore (Cp (- 45)) WHITE), info_pv = Some [Move ''e2e4'']\<rparr>
      else if ply b = 3 then \<lparr>info_score = Some (PovScore (Mate 1) BLACK), info_pv = Some [Move ''d8h4'']\<rparr>
      else \<lparr>info_score = Some (PovScore (Mate 0) WHITE), info_pv = None\<rparr>)"

definition sample_push :: "Board \<Rightarrow> Move \<Rightarrow> Board" where
  "sample_push b mv =
     (if ply b = 0 \<and> uci mv = ''f2f3'' then board1
      else if ply b = 1 \<and> uci mv = ''e7e5'' then board2
      else if ply b = 2 \<and> uci mv = ''g2g4'' then board3
      else if ply b = 3 \<and> uci mv = ''d8h4'' then board4
      else b)"

definition sample_push_san :: "Board \<Rightarrow> string \<Rightarrow> string + Board" where
  "sample_push_san b token =
     (if ply b = 0 \<and> token = ''f3'' then Inr board1
      else if ply b = 1 \<and> token = ''e5'' then Inr board2
      else if ply b = 2 \<and> token = ''g4'' then Inr board3
      else if ply b = 3 \<and> token = ''Qh4#'' then Inr board4
      else Inl (''illegal san: '' @ token))"

definition sample_book :: "string \<rightharpoonup> string" where
  "sample_book =
     [''rnbqkbnr/pppppppp/8/8/8/5P2/PPPPP1PP/RNBQKBNR b KQkq -'' \<mapsto> ''f2f3'']"

definition sample_env :: env where
  "sample_env = \<lparr>analyse = sample_analyse, push = sample_push, push_san = sample_push_san,
     opening_book = sample_book\<rparr>"

definition sample_mainline :: "Move list" where
  "sample_mainline = [Move ''f2f3'', Move ''e7e5'', Move ''g2g4'', Move ''d8h4'']"

definition sample_moves :: "string list" where
  "sample_moves = [''1. f3 e5'', ''2. g4 Qh4#'']"

section \<open>Thresholds and the centipawn stage\<close>

lemma threshold_maxLoss:
  "c \<in> set candidates \<Longrightarrow> get_evaluation_loss_threshold c x = Finite (maxLoss c x)"
  by (auto simp add: candidates_def get_evaluation_loss_threshold_def maxLoss_def Let_def)

lemma threshold_blunder: "get_evaluation_loss_threshold BLUNDER x = PosInf"
  by (simp add: get_evaluation_loss_threshold_def Let_def)

lemma centipawn_loop_spec:
  "centipawn_loop centipawn_classifications pre_eval eval_loss
     = Some (centipawn_stage pre_eval eval_loss)"
  by (simp add: centipawn_classifications_def centipawn_stage_def candidates_def
      threshold_maxLoss threshold_blunder)

text \<open>
  Claim C5. For a move that is not a book move, the initial classification is the first
  of Best, Excellent, Good, Inaccuracy, Miss, Mistake whose tolerated loss at the
  evaluation before the move is at least the evaluation loss, and Blunder when none is;
  the evaluation loss that both modules classify is the absolute difference of the
  evaluations before and after the move.
\<close>

theorem centipawn_stage_refined:
  "(\<not> str_bool book_move \<longrightarrow>
      initial_classification book_move pre_eval eval_loss = centipawn_stage pre_eval eval_loss)
   \<and> pgn_classify book_move pre_score best_move mv post_score =
       brilliant_moves
         (pgn_missed
            (initial_classification book_move (white_eval pre_score)
               \<bar>white_eval pre_score - white_eval post_score\<bar>)
            pre_score (white_eval pre_score) \<bar>white_eval pre_score - white_eval post_score\<bar>
            mv best_move)
         (white_eval pre_score) (white_eval post_score)
   \<and> json_classify book_move pre_score best_move token post_score =
       brilliant_moves
         (json_missed
            (initial_classification book_move (white_eval pre_score)
               \<bar>white_eval pre_score - white_eval post_score\<bar>)
            pre_score (white_eval pre_score) \<bar>white_eval pre_score - white_eval post_score\<bar>
            token best_move)
         (white_eval pre_score) (white_eval post_score)"
  by (simp add: initial_classification_def centipawn_loop_spec pgn_classify_def
      json_classify_def Let_def)

theorem centipawn_stage_refined_witness:
  "\<not> str_bool None \<and> initial_classification None 35 75 = INACCURACY
   \<and> centipawn_stage 35 75 = INACCURACY"
proof -
  have "centipawn_stage 35 75 = INACCURACY"
    by (simp add: centipawn_stage_def candidates_def maxLoss_def)
  then show ?thesis
    using centipawn_stage_refined [of None 35 75] by simp
qed

lemma quadratic_mono:
  fixes x :: rat
  assumes "0 \<le> x" "a1 \<le> a2" "b1 \<le> b2" "c1 \<le> c2"
  shows "max (a1 * x\<^sup>2 + b1 * x + c1) 0 \<le> max (a2 * x\<^sup>2 + b2 * x + c2) 0"
proof -
  have "a1 * x\<^sup>2 \<le> a2 * x\<^sup>2"
    using assms(2) by (simp add: mult_right_mono)
  moreover have "b1 * x \<le> b2 * x"
    using assms(1,3) by (simp add: mult_right_mono)
  ultimately have "a1 * x\<^sup>2 + b1 * x + c1 \<le> a2 * x\<^sup>2 + b2 * x + c2"
    using assms(4) by linarith
  then show ?thesis by (simp add: max.coboundedI1)
qed

lemma maxLoss_nonneg: "0 \<le> maxLoss c x"
  by (simp add: maxLoss_def split: prod.splits)

lemma maxLoss_chain:
  "maxLoss BEST x \<le> maxLoss EXCELLENT x"
  "maxLoss EXCELLENT x \<le> maxLoss GOOD x"
  "maxLoss GOOD x \<le> maxLoss INACCURACY x"
  "maxLoss INACCURACY x \<le> maxLoss MISS x"
  "maxLoss MISS x \<le> maxLoss MISTAKE x"
  unfolding maxLoss_def coefficients.simps prod.case
  by (rule quadratic_mono; simp)+

lemma thresholds_sorted:
  "sorted_wrt threshold_le (map (\<lambda>c. get_evaluation_loss_threshold c x) candidates)"
proof -
  have m: "map (\<lambda>c. get_evaluation_loss_threshold c x) candidates
           = map (\<lambda>c. Finite (maxLoss c x)) candidates"
    by (rule map_cong) (simp_all add: threshold_maxLoss)
  show ?thesis
    unfolding m using maxLoss_chain [of x]
    by (simp add: candidates_def)
qed

text \<open>
  Claim C6. For each of the six candidates the threshold is a number that is not
  negative, whatever the evaluation before the move; and for an evaluation of magnitude
  at most 2000 centipawns the thresholds do not decrease along Best, Excellent, Good,
  Inaccuracy, Miss, Mistake.
\<close>

theorem thresholds_nonneg_nondecreasing:
  "(c \<in> set candidates \<longrightarrow>
      get_evaluation_loss_threshold c prev_eval \<noteq> PosInf
      \<and> threshold_le (Finite 0) (get_evaluation_loss_threshold c prev_eval))
   \<and> (\<bar>prev_eval\<bar> \<le> 2000 \<longrightarrow>
      sorted_wrt threshold_le (map (\<lambda>c. get_evaluation_loss_threshold c prev_eval) candidates))"
  by (simp add: threshold_maxLoss maxLoss_nonneg thresholds_sorted)

theorem thresholds_nonneg_nondecreasing_witness:
  "MISS \<in> set candidates
   \<and> get_evaluation_loss_threshold MISS 1000 \<noteq> PosInf
   \<and> threshold_le (Finite 0) (get_evaluation_loss_threshold MISS 1000)
   \<and> \<bar>1000 :: rat\<bar> \<le> 2000
   \<and> sorted_wrt threshold_le (map (\<lambda>c. get_evaluation_loss_threshold c 1000) candidates)"
  using thresholds_nonneg_nondecreasing [of MISS 1000] by (simp add: candidates_def)

section \<open>The brilliancy stage\<close>

text \<open>
  Claim C1, as amended. A classification other than Best passes the stage unchanged. From
  Best the stage yields one of Best, Great and Brilliant: Great when the evaluation before
  the move is below -150, the evaluation after it at least 150, and the two are not both
  beyond -300 and 300; Best when the first reversal does not hold. So -300 to 300 yields
  Great, and -150 to 150 and -149 to 150 stay Best.
\<close>

theorem brilliancy_boundaries:
  "brilliant_moves BEST (- 300) 300 = GREAT
   \<and> brilliant_moves BEST (- 150) 150 = BEST
   \<and> brilliant_moves BEST (- 149) 150 = BEST
   \<and> brilliant_moves BEST pre_eval post_eval \<in> {BEST, GREAT, BRILLIANT}
   \<and> (pre_eval < - 150 \<and> post_eval \<ge> 150 \<and> \<not> (pre_eval < - 300 \<and> post_eval \<ge> 300)
        \<longrightarrow> brilliant_moves BEST pre_eval post_eval = GREAT)
   \<and> (\<not> (pre_eval < - 150 \<and> post_eval \<ge> 150)
        \<longrightarrow> brilliant_moves BEST pre_eval post_eval = BEST)
   \<and> (c \<noteq> BEST \<longrightarrow> brilliant_moves c pre_eval post_eval = c)"
  by (auto simp add: brilliant_moves_def)

theorem brilliancy_boundaries_witness:
  "brilliant_moves BEST (- 200) 200 = GREAT \<and> brilliant_moves BEST 0 0 = BEST
   \<and> brilliant_moves GOOD (- 200) 200 = GOOD"
  using brilliancy_boundaries [of "- 200" 200 GOOD] brilliancy_boundaries [of 0 0 GOOD]
  by simp

lemma brilliant_unreachable:
  "c \<noteq> BRILLIANT \<Longrightarrow> brilliant_moves c pre_eval post_eval \<noteq> BRILLIANT"
  by (simp add: brilliant_moves_def)

text \<open>
  The claim as it was stated fails at its own boundaries: -300 is not below -300 and -150
  is not below -150.
\<close>

theorem brilliancy_claim_counterexample:
  "brilliant_moves BEST (- 300) 300 \<noteq> BRILLIANT \<and> brilliant_moves BEST (- 150) 150 \<noteq> GREAT"
  by (simp add: brilliant_moves_def)

section \<open>Book moves and the missed-win stage\<close>


lemma is_forced_win_Mate: "is_forced_win (PovScore (Mate n) t) = (n \<le> 3)"
  by (simp add: is_forced_win_def is_mate_def MISS_MATE_THRESHOLD_def)

lemma is_forced_win_Cp: "\<not> is_forced_win (PovScore (Cp c) t)"
  by (simp add: is_forced_win_def is_mate_def)

lemma pgn_missed_boundary:
  "pgn_missed c (PovScore (Cp 500) WHITE) 500 300 (Move ''a2a3'') (Some (Move ''a2a4'')) = MISS"
  "pgn_missed c (PovScore (Cp 500) WHITE) 500 299 (Move ''a2a3'') (Some (Move ''a2a4'')) = c"
  by (simp_all add: pgn_missed_def FORCED_WIN_THRESHOLD_def MISS_CENTIPAWN_LOSS_def
      is_forced_win_Cp)




text \<open>
  Claim C2. The missed-win stage is meant for a side that had a forced win. The test
  \<^verbatim>\<open>relative.mate() <= MISS_MATE_THRESHOLD\<close> also holds for every negative distance,
  that is, when the side to move is being mated: White, to be mated in five, plays a move
  other than the engine's first and is mated in four; the loss is one centipawn, the
  centipawn stage says Best, and the move is classified Miss.
\<close>

theorem missed_win_for_mated_side:
  "white_eval (PovScore (Mate (- 5)) WHITE) = - 9995
   \<and> white_eval (PovScore (Mate 4) BLACK) = - 9996
   \<and> is_forced_win (PovScore (Mate (- 5)) WHITE)
   \<and> initial_classification None (- 9995) 1 = BEST
   \<and> pgn_classify None (PovScore (Mate (- 5)) WHITE) (Some (Move ''g1h1'')) (Move ''g1f1'')
        (PovScore (Mate 4) BLACK) = MISS"
  by (simp add: pgn_classify_def white_eval_def white_def initial_classification_def
      centipawn_classifications_def get_evaluation_loss_threshold_def
      pgn_missed_def brilliant_moves_def FORCED_WIN_THRESHOLD_def MISS_CENTIPAWN_LOSS_def
      is_forced_win_def is_mate_def MISS_MATE_THRESHOLD_def Let_def)

section \<open>Phase detection and phase rating\<close>

lemma material_loop_total:
  "material_loop b = Some (total_material b, queen_count b)"
  by (simp add: material_loop_def PIECE_TYPES_def material_body_def total_material_def
      material_of_def queen_count_def piece_count_def QUEEN_VALUE_def Let_def)

text \<open>
  Claim C7. \<open>detect_game_phase\<close> returns Opening whenever the flag is set; otherwise it
  returns Endgame exactly when the material of both colours without the kings, at the
  values 1, 3, 3, 5, 9, is at most 24, or there is no queen and it is at most 48, and
  Middlegame otherwise.
\<close>

theorem detect_game_phase_spec:
  "detect_game_phase b True = Some OPENING
   \<and> detect_game_phase b False =
       Some (if total_material b \<le> 24 \<or> (queen_count b = 0 \<and> total_material b \<le> 48)
             then ENDGAME else MIDDLEGAME)"
  by (simp add: detect_game_phase_def material_loop_total ENDGAME_MATERIAL_THRESHOLD_def)



section \<open>The opening flag along a game\<close>

lemma detect_phase_flag:
  "detect_game_phase b flag = Some ph \<Longrightarrow> (ph = OPENING) = flag"
  by (cases flag)
    (auto simp add: detect_game_phase_def material_loop_total Let_def split: if_splits)

lemma track_in_opening [simp]: "st_in_opening (track s k ph c) = st_in_opening s"
  by (simp add: track_def)

lemma pgn_iteration_flag:
  assumes "pgn_iteration e s mv = Inr (ph, s')"
  shows "(st_in_opening s' \<longrightarrow> st_in_opening s) \<and> (ph = OPENING) = st_in_opening s"
  using assms
  by (auto simp add: pgn_iteration_def Let_def dest: detect_phase_flag
      split: sum.splits prod.splits option.splits if_splits)

lemma json_iteration_flag:
  assumes "json_iteration e s token = Inr (oph, s')"
  shows "(st_in_opening s' \<longrightarrow> st_in_opening s)
         \<and> (oph = Some OPENING \<longrightarrow> st_in_opening s)
         \<and> (\<not> st_in_opening s \<longrightarrow> oph \<noteq> Some OPENING)"
  using assms
  by (auto simp add: json_iteration_def Let_def dest: detect_phase_flag
      split: sum.splits prod.splits option.splits if_splits)

lemma pgn_phases_closed:
  "\<not> st_in_opening s \<Longrightarrow> OPENING \<notin> set (pgn_phases e s mvs)"
proof (induction mvs arbitrary: s)
  case Nil
  then show ?case by simp
next
  case (Cons mv mvs)
  show ?case
  proof (cases "pgn_iteration e s mv")
    case (Inl err)
    then show ?thesis by simp
  next
    case (Inr r)
    obtain ph s' where r: "r = (ph, s')" by (cases r)
    from pgn_iteration_flag [of e s mv ph s'] Inr r Cons.prems
    have "ph \<noteq> OPENING" "\<not> st_in_opening s'" by auto
    with Cons.IH [of s'] Inr r show ?thesis by simp
  qed
qed

lemma json_phases_closed:
  "\<not> st_in_opening s \<Longrightarrow> OPENING \<notin> set (json_phases e s tokens)"
proof (induction tokens arbitrary: s)
  case Nil
  then show ?case by simp
next
  case (Cons token tokens)
  show ?case
  proof (cases "json_iteration e s token")
    case (Inl err)
    then show ?thesis by simp
  next
    case (Inr r)
    obtain oph s' where r: "r = (oph, s')" by (cases r)
    from json_iteration_flag [of e s token oph s'] Inr r Cons.prems
    have "oph \<noteq> Some OPENING" "\<not> st_in_opening s'" by auto
    with Cons.IH [of s'] Inr r show ?thesis by (cases oph) simp_all
  qed
qed

lemma pgn_phases_monotone:
  "i < j \<Longrightarrow> j < length (pgn_phases e s mvs) \<Longrightarrow> pgn_phases e s mvs ! i \<noteq> OPENING
   \<Longrightarrow> pgn_phases e s mvs ! j \<noteq> OPENING"
proof (induction mvs arbitrary: s i j)
  case Nil
  then show ?case by simp
next
  case (Cons mv mvs)
  show ?case
  proof (cases "pgn_iteration e s mv")
    case (Inl err)
    with Cons.prems show ?thesis by simp
  next
    case (Inr r)
    obtain ph s' where r: "r = (ph, s')" by (cases r)
    have ps: "pgn_phases e s (mv # mvs) = ph # pgn_phases e s' mvs"
      using Inr r by simp
    obtain j' where j: "j = Suc j'" using Cons.prems(1) by (cases j) simp_all
    show ?thesis
    proof (cases i)
      case 0
      with Cons.prems(3) ps have "ph \<noteq> OPENING" by simp
      with pgn_iteration_flag [of e s mv ph s'] Inr r have "\<not> st_in_opening s'" by auto
      then have "OPENING \<notin> set (pgn_phases e s' mvs)" by (rule pgn_phases_closed)
      moreover have "j' < length (pgn_phases e s' mvs)" using Cons.prems(2) ps j by simp
      ultimately have "pgn_phases e s' mvs ! j' \<noteq> OPENING" by (metis nth_mem)
      then show ?thesis using ps j by simp
    next
      case (Suc i')
      with Cons.prems ps j Cons.IH [of i' j' s'] show ?thesis by simp
    qed
  qed
qed

lemma json_phases_monotone:
  "i < j \<Longrightarrow> j < length (json_phases e s tokens) \<Longrightarrow> json_phases e s tokens ! i \<noteq> OPENING
   \<Longrightarrow> json_phases e s tokens ! j \<noteq> OPENING"
proof (induction tokens arbitrary: s i j)
  case Nil
  then show ?case by simp
next
  case (Cons token tokens)
  show ?case
  proof (cases "json_iteration e s token")
    case (Inl err)
    with Cons.prems show ?thesis by simp
  next
    case (Inr r)
    obtain oph s' where r: "r = (oph, s')" by (cases r)
    show ?thesis
    proof (cases oph)
      case None
      then have "json_phases e s (token # tokens) = json_phases e s' tokens"
        using Inr r by simp
      with Cons.prems Cons.IH [of i j s'] show ?thesis by simp
    next
      case (Some ph)
      have ps: "json_phases e s (token # tokens) = ph # json_phases e s' tokens"
        using Inr r Some by simp
      obtain j' where j: "j = Suc j'" using Cons.prems(1) by (cases j) simp_all
      show ?thesis
      proof (cases i)
        case 0
        with Cons.prems(3) ps have "ph \<noteq> OPENING" by simp
        have "st_in_opening s' \<longrightarrow> st_in_opening s"
          using json_iteration_flag [of e s token oph s'] Inr r by simp
        moreover have "st_in_opening s \<longrightarrow> ph = OPENING"
          using Inr r Some
          by (auto simp add: json_iteration_def Let_def dest: detect_phase_flag
              split: sum.splits prod.splits option.splits if_splits)
        ultimately have "\<not> st_in_opening s'" using \<open>ph \<noteq> OPENING\<close> by auto
        then have "OPENING \<notin> set (json_phases e s' tokens)" by (rule json_phases_closed)
        moreover have "j' < length (json_phases e s' tokens)" using Cons.prems(2) ps j by simp
        ultimately have "json_phases e s' tokens ! j' \<noteq> OPENING" by (metis nth_mem)
        then show ?thesis using ps j by simp
      next
        case (Suc i')
        with Cons.prems ps j Cons.IH [of i' j' s'] show ?thesis by simp
      qed
    qed
  qed
qed

text \<open>
  Claim C9. In both loops a pass never sets the opening flag that was cleared; and once a
  move of the game is assigned a phase other than Opening, no later move of the game is
  assigned Opening.
\<close>

theorem opening_flag_monotone:
  "(pgn_iteration e s mv = Inr (ph, s') \<and> st_in_opening s' \<longrightarrow> st_in_opening s)
   \<and> (json_iteration e s token = Inr (oph, s'') \<and> st_in_opening s'' \<longrightarrow> st_in_opening s)
   \<and> (i < j \<and> j < length (pgn_phases e s mvs) \<and> pgn_phases e s mvs ! i \<noteq> OPENING
        \<longrightarrow> pgn_phases e s mvs ! j \<noteq> OPENING)
   \<and> (i < j \<and> j < length (json_phases e s tokens) \<and> json_phases e s tokens ! i \<noteq> OPENING
        \<longrightarrow> json_phases e s tokens ! j \<noteq> OPENING)"
  using pgn_iteration_flag [of e s mv ph s'] json_iteration_flag [of e s token oph s'']
    pgn_phases_monotone [of i j e s mvs] json_phases_monotone [of i j e s tokens]
  by blast

theorem opening_flag_monotone_witness:
  "map_sum id (\<lambda>r. st_in_opening (snd r))
       (pgn_iteration sample_env (initial_state board0) (Move ''f2f3'')) = Inr True
   \<and> map_sum id (\<lambda>r. st_in_opening (snd r))
       (json_iteration sample_env (initial_state board0) ''f3'') = Inr True
   \<and> st_in_opening (initial_state board0)
   \<and> (2 :: nat) < 3
   \<and> 3 < length (pgn_phases sample_env (initial_state board0) sample_mainline)
   \<and> pgn_phases sample_env (initial_state board0) sample_mainline ! 2 \<noteq> OPENING
   \<and> pgn_phases sample_env (initial_state board0) sample_mainline ! 3 \<noteq> OPENING
   \<and> 3 < length (json_phases sample_env (initial_state board0) (concat (map move_tokens sample_moves)))
   \<and> json_phases sample_env (initial_state board0) (concat (map move_tokens sample_moves)) ! 2 \<noteq> OPENING
   \<and> json_phases sample_env (initial_state board0) (concat (map move_tokens sample_moves)) ! 3 \<noteq> OPENING"
proof -
  let ?s = "initial_state board0"
  have p: "pgn_phases sample_env ?s sample_mainline = [OPENING, OPENING, MIDDLEGAME, MIDDLEGAME]"
    by code_simp
  have q: "json_phases sample_env ?s (concat (map move_tokens sample_moves))
             = [OPENING, OPENING, MIDDLEGAME, MIDDLEGAME]"
    by code_simp
  have a: "map_sum id (\<lambda>r. st_in_opening (snd r))
             (pgn_iteration sample_env ?s (Move ''f2f3'')) = Inr True"
    by code_simp
  have b: "map_sum id (\<lambda>r. st_in_opening (snd r))
             (json_iteration sample_env ?s ''f3'') = Inr True"
    by code_simp
  obtain ph s' where a': "pgn_iteration sample_env ?s (Move ''f2f3'') = Inr (ph, s')"
      and a'': "st_in_opening s'"
    using a by (cases "pgn_iteration sample_env ?s (Move ''f2f3'')") auto
  have "st_in_opening ?s"
    using opening_flag_monotone [where e = sample_env and s = ?s and mv = "Move ''f2f3''"
        and ph = ph and s' = s'] a' a''
    by blast
  moreover have "pgn_phases sample_env ?s sample_mainline ! 3 \<noteq> OPENING
      \<and> json_phases sample_env ?s (concat (map move_tokens sample_moves)) ! 3 \<noteq> OPENING"
    using opening_flag_monotone [where e = sample_env and s = ?s and i = 2 and j = 3
        and mvs = sample_mainline and tokens = "concat (map move_tokens sample_moves)"]
    by (simp add: p q)
  ultimately show ?thesis
    using a b by (simp add: p q)
qed

section \<open>Tokens that cannot be played\<close>

text \<open>
  Claim C10. In the JSON loop, when the engine's answer before the move has been read and
  \<^verbatim>\<open>push_san\<close> refuses the token, the pass appends a record with the move number,
  the player unknown, the token and an error string, and changes nothing else: the board,
  the flag, the move number and the accumulators by player and by phase stay as they
  were, no phase is assigned, and the loop goes on with the next token.
\<close>

theorem invalid_token_recorded:
  assumes "read_pre_info (analyse e (st_board s)) = Inr (pre_score, best_move)"
    and "push_san e (st_board s) token = Inl msg"
  shows "(let s' = s\<lparr>st_move_analysis := st_move_analysis s @
                    [ErrorRecord (st_move_number s) ''unknown'' token (''Invalid move: '' @ msg)]\<rparr>
          in json_iteration e s token = Inr (None, s')
             \<and> st_board s' = st_board s
             \<and> st_in_opening s' = st_in_opening s
             \<and> st_move_number s' = st_move_number s
             \<and> st_classifications s' = st_classifications s
             \<and> st_phase_data s' = st_phase_data s
             \<and> json_loop e s (token # tokens) = json_loop e s' tokens
             \<and> json_phases e s (token # tokens) = json_phases e s' tokens)"
  using assms by (simp add: json_iteration_def Let_def)

theorem invalid_token_recorded_witness:
  "read_pre_info (analyse sample_env (st_board (initial_state board0)))
     = Inr (PovScore (Cp 35) WHITE, Some (Move ''e2e4''))
   \<and> push_san sample_env (st_board (initial_state board0)) ''Ke2'' = Inl ''illegal san: Ke2''
   \<and> map_sum id st_move_analysis (json_loop sample_env (initial_state board0) [''Ke2'', ''f3''])
     = Inr [ErrorRecord 1 ''unknown'' ''Ke2'' ''Invalid move: illegal san: Ke2'',
            MoveRecord 1 ''White'' ''f3'' (- 0.4) 0.75 ''book'']"
proof -
  let ?s = "initial_state board0"
  have h1: "read_pre_info (analyse sample_env (st_board ?s))
              = Inr (PovScore (Cp 35) WHITE, Some (Move ''e2e4''))"
    by (simp add: sample_env_def sample_analyse_def initial_state_def board0_def ply_def
        read_pre_info_def)
  have h2: "push_san sample_env (st_board ?s) ''Ke2'' = Inl ''illegal san: Ke2''"
    by (simp add: sample_env_def sample_push_san_def initial_state_def board0_def ply_def)
  have h3: "json_loop sample_env ?s [''Ke2'', ''f3'']
      = json_loop sample_env
          (?s\<lparr>st_move_analysis := st_move_analysis ?s @
               [ErrorRecord (st_move_number ?s) ''unknown'' ''Ke2''
                  (''Invalid move: '' @ ''illegal san: Ke2'')]\<rparr>) [''f3'']"
    using invalid_token_recorded [OF h1 h2, of "[''f3'']"] by (simp add: Let_def)
  have h4: "map_sum id st_move_analysis
      (json_loop sample_env
          (?s\<lparr>st_move_analysis := st_move_analysis ?s @
               [ErrorRecord (st_move_number ?s) ''unknown'' ''Ke2''
                  (''Invalid move: '' @ ''illegal san: Ke2'')]\<rparr>) [''f3''])
       = Inr [ErrorRecord 1 ''unknown'' ''Ke2'' ''Invalid move: illegal san: Ke2'',
            MoveRecord 1 ''White'' ''f3'' (- 0.4) 0.75 ''book'']"
    by code_simp
  show ?thesis using h1 h2 h3 h4 by simp
qed

section \<open>The two modules on one game\<close>

text \<open>
  Claim C4. The game 1. f3 e5 2. g4 Qh4 mate, with the same engine answers, read once as
  a main line of moves and once as tokens. The tokens play the moves of the main line.
  Black's last move is the engine's first move: the PGN module, which compares moves,
  classifies it Best; the JSON module compares the token Qh4# with the UCI string d8h4,
  finds them different and classifies it Miss.
\<close>

theorem pipelines_disagree:
  "sample_push_san board0 ''f3'' = Inr (sample_push board0 (Move ''f2f3''))
   \<and> sample_push_san board1 ''e5'' = Inr (sample_push board1 (Move ''e7e5''))
   \<and> sample_push_san board2 ''g4'' = Inr (sample_push board2 (Move ''g2g4''))
   \<and> sample_push_san board3 ''Qh4#'' = Inr (sample_push board3 (Move ''d8h4''))
   \<and> map_sum id st_move_analysis
        (analyze_pgn_with_stockfish sample_env board0 sample_mainline)
     = Inr [MoveRecord 1 ''White'' ''f2f3'' (- 0.4) 0.75 ''book'',
            MoveRecord 2 ''Black'' ''e7e5'' (- 0.45) 0.05 ''excellent'',
            MoveRecord 3 ''White'' ''g2g4'' (- 99.99) 99.54 ''blunder'',
            MoveRecord 4 ''Black'' ''d8h4'' (- 100) 0.01 ''best'']
   \<and> map_sum id st_move_analysis
        (analyze_json_game_with_stockfish sample_env board0 sample_moves)
     = Inr [MoveRecord 1 ''White'' ''f3'' (- 0.4) 0.75 ''book'',
            MoveRecord 2 ''Black'' ''e5'' (- 0.45) 0.05 ''excellent'',
            MoveRecord 3 ''White'' ''g4'' (- 99.99) 99.54 ''blunder'',
            MoveRecord 4 ''Black'' ''Qh4#'' (- 100) 0.01 ''miss'']"
proof -
  have "sample_push_san board0 ''f3'' = Inr (sample_push board0 (Move ''f2f3''))"
    "sample_push_san board1 ''e5'' = Inr (sample_push board1 (Move ''e7e5''))"
    "sample_push_san board2 ''g4'' = Inr (sample_push board2 (Move ''g2g4''))"
    "sample_push_san board3 ''Qh4#'' = Inr (sample_push board3 (Move ''d8h4''))"
    by (simp_all add: sample_push_san_def sample_push_def ply_def board0_def board1_def
        board2_def board3_def)
  moreover have "map_sum id st_move_analysis
        (analyze_pgn_with_stockfish sample_env board0 sample_mainline)
     = Inr [MoveRecord 1 ''White'' ''f2f3'' (- 0.4) 0.75 ''book'',
            MoveRecord 2 ''Black'' ''e7e5'' (- 0.45) 0.05 ''excellent'',
            MoveRecord 3 ''White'' ''g2g4'' (- 99.99) 99.54 ''blunder'',
            MoveRecord 4 ''Black'' ''d8h4'' (- 100) 0.01 ''best'']"
    by code_simp
  moreover have "map_sum id st_move_analysis
        (analyze_json_game_with_stockfish sample_env board0 sample_moves)
     = Inr [MoveRecord 1 ''White'' ''f3'' (- 0.4) 0.75 ''book'',
            MoveRecord 2 ''Black'' ''e5'' (- 0.45) 0.05 ''excellent'',
            MoveRecord 3 ''White'' ''g4'' (- 99.99) 99.54 ''blunder'',
            MoveRecord 4 ''Black'' ''Qh4#'' (- 100) 0.01 ''miss'']"
    by code_simp
  ultimately show ?thesis by simp
qed

end
